theory Spec2Isabelle
  imports Complex_Main "HOL-Library.AList" "HOL-Library.Sublist"
begin

section \<open>The stock ETL pipeline (stock\_etl.py, scheduler.py)\<close>

text \<open>
  The pipeline fetches a daily time series per symbol over HTTP, saves the raw JSON in
  the directory \<open>raw_data\<close>, turns it into a pandas DataFrame and inserts the rows
  into the SQLite table \<open>stock_daily_data\<close>. The model makes the three pieces of the
  outside world explicit: the HTTP server and the clock are inputs (\<open>env\<close>), the
  directory and the database are the state (\<open>world\<close>). A Python exception that
  leaves a function is the \<open>Inl\<close> branch of its result.
\<close>

subsection \<open>Exceptions\<close>

datatype py_error =
    RuntimeError           \<comment> \<open>raised by \<open>fetch_stock_data\<close> on an "Information" payload\<close>
  | ValueError             \<comment> \<open>\<open>json.load\<close> on malformed text, \<open>pd.to_numeric\<close>,
                               \<open>pd.to_datetime\<close>, and the credential check of the script\<close>
  | PermissionError        \<comment> \<open>\<open>open\<close> on a file that exists and cannot be read\<close>
  | ProgrammingError       \<comment> \<open>sqlite3: a parameter of a type it cannot bind\<close>
  | OperationalError       \<comment> \<open>sqlite3: no such table\<close>

subsection \<open>Floating-point values\<close>

text \<open>
  A float64 is modelled as an exact real number or one of the three special values.
  Rounding, overflow and the sign of zero are outside the model. The three operations
  are those of line 126, with the special cases of IEEE 754 that numpy follows: it
  divides by zero without raising.
\<close>

datatype pyfloat = Fin real | PInf | NInf | NaN

fun py_sub :: "pyfloat \<Rightarrow> pyfloat \<Rightarrow> pyfloat" where
  "py_sub NaN y = NaN"
| "py_sub x NaN = NaN"
| "py_sub (Fin a) (Fin b) = Fin (a - b)"
| "py_sub (Fin a) PInf = NInf"
| "py_sub (Fin a) NInf = PInf"
| "py_sub PInf PInf = NaN"
| "py_sub PInf y = PInf"
| "py_sub NInf NInf = NaN"
| "py_sub NInf y = NInf"

fun py_truediv :: "pyfloat \<Rightarrow> pyfloat \<Rightarrow> pyfloat" where
  "py_truediv NaN y = NaN"
| "py_truediv x NaN = NaN"
| "py_truediv (Fin a) (Fin b) =
     (if b = 0 then (if a = 0 then NaN else if 0 < a then PInf else NInf)
      else Fin (a / b))"
| "py_truediv (Fin a) y = Fin 0"
| "py_truediv PInf (Fin b) = (if b < 0 then NInf else PInf)"
| "py_truediv NInf (Fin b) = (if b < 0 then PInf else NInf)"
| "py_truediv x y = NaN"

fun py_mul :: "pyfloat \<Rightarrow> pyfloat \<Rightarrow> pyfloat" where
  "py_mul NaN y = NaN"
| "py_mul x NaN = NaN"
| "py_mul (Fin a) (Fin b) = Fin (a * b)"
| "py_mul (Fin a) PInf = (if a = 0 then NaN else if 0 < a then PInf else NInf)"
| "py_mul (Fin a) NInf = (if a = 0 then NaN else if 0 < a then NInf else PInf)"
| "py_mul PInf (Fin b) = (if b = 0 then NaN else if 0 < b then PInf else NInf)"
| "py_mul NInf (Fin b) = (if b = 0 then NaN else if 0 < b then NInf else PInf)"
| "py_mul PInf PInf = PInf"
| "py_mul NInf NInf = PInf"
| "py_mul PInf NInf = NInf"
| "py_mul NInf PInf = NInf"


subsection \<open>Rows\<close>

text \<open>
  A row of the transformed DataFrame and a record of the table have the same nine
  columns (the list of line 177 against the one of line 184); the record below uses
  the names of the table. The surrogate \<open>id\<close> of the table is left out: nothing in the
  program reads it. A date is the ISO text of a \<open>datetime.date\<close>. A volume of
  \<open>None\<close> is pandas' \<open>NA\<close> in the DataFrame and SQL \<open>NULL\<close> in the table; a float
  \<open>NaN\<close> is bound by SQLite as \<open>NULL\<close>.
\<close>

type_synonym date = string

record row =
  symbol :: string
  date :: date
  open_price :: pyfloat
  high_price :: pyfloat
  low_price :: pyfloat
  close_price :: pyfloat
  volume :: "int option"
  daily_change_percentage :: pyfloat
  extraction_timestamp :: string

type_synonym dataframe = "row list"

subsection \<open>The table \<open>stock_daily_data\<close> (lines 144-158)\<close>

text \<open>
  The table is the list of its records in insertion order. Its declaration has two
  kinds of constraint: \<open>NOT NULL\<close> on every column but \<open>daily_change_percentage\<close>,
  and \<open>UNIQUE(symbol, date)\<close>.
\<close>

type_synonym table = "row list"

definition row_key :: "row \<Rightarrow> string \<times> date" where
  "row_key r = (symbol r, date r)"

definition violates_not_null :: "row \<Rightarrow> bool" where
  "violates_not_null r \<longleftrightarrow>
     open_price r = NaN \<or> high_price r = NaN \<or> low_price r = NaN \<or>
     close_price r = NaN \<or> volume r = None"

definition violates_unique :: "table \<Rightarrow> row \<Rightarrow> bool" where
  "violates_unique t r \<longleftrightarrow> row_key r \<in> set (map row_key t)"

text \<open>
  \<open>INSERT OR IGNORE\<close> (line 184): a row that violates a constraint is skipped and
  the statement goes on; any other row is appended. The result is the table and the
  number of rows inserted (0 or 1).
\<close>

definition insert_or_ignore :: "table \<Rightarrow> row \<Rightarrow> table \<times> nat" where
  "insert_or_ignore t r =
     (if violates_not_null r \<or> violates_unique t r then (t, 0) else (t @ [r], 1))"

text \<open>
  \<open>cursor.executemany\<close> (line 190) binds the tuples one after the other. The tuples
  come from \<open>itertuples\<close> over a DataFrame whose volume column has the nullable dtype
  \<open>Int64\<close>: a missing volume is the object \<open>pd.NA\<close>, which sqlite3 cannot bind, so
  the call raises \<open>ProgrammingError\<close> at that tuple. \<open>rowcount\<close> is the sum over the
  tuples executed.
\<close>

fun executemany :: "table \<Rightarrow> row list \<Rightarrow> py_error + table \<times> nat" where
  "executemany t [] = Inr (t, 0)"
| "executemany t (r # rs) =
     (if volume r = None then Inl ProgrammingError
      else (case insert_or_ignore t r of (t', n) \<Rightarrow>
              (case executemany t' rs of
                 Inl e \<Rightarrow> Inl e
               | Inr (t'', m) \<Rightarrow> Inr (t'', n + m))))"

subsection \<open>The world\<close>

text \<open>
  A decoded API response is a JSON object. Two of its top-level keys matter to the
  program: \<open>"Information"\<close>, a message, and \<open>"Time Series (Daily)"\<close>, an object
  that maps a date string to that day's object. A day's object is given by the five
  fields the program reads, each absent or present; a present value is either a number
  (a JSON number or a string that spells one) or any other string. The label of a day
  is given by what \<open>pd.to_datetime\<close> makes of it: a calendar day, or not a date.
\<close>

datatype cell = Number pyfloat | Text string

record day =
  f_open :: "cell option"        \<comment> \<open>key \<open>"1. open"\<close>\<close>
  f_high :: "cell option"        \<comment> \<open>key \<open>"2. high"\<close>\<close>
  f_low :: "cell option"         \<comment> \<open>key \<open>"3. low"\<close>\<close>
  f_close :: "cell option"       \<comment> \<open>key \<open>"4. close"\<close>\<close>
  f_volume :: "cell option"      \<comment> \<open>key \<open>"5. volume"\<close>\<close>

datatype label = DateLabel date | OtherLabel string

record payload =
  information :: "string option"
  time_series :: "(label \<times> day) list option"

text \<open>
  A file of \<open>raw_data\<close>: a JSON document, text that is not JSON, or a file that
  cannot be opened for reading.
\<close>

datatype snapshot = Doc payload | Corrupt | Unreadable

record world =
  raw_data :: "(string \<times> snapshot) list"
  db :: "table option"           \<comment> \<open>\<open>None\<close>: the table has not been created\<close>

subsection \<open>Load (lines 138-194)\<close>

definition setup_database :: "world \<Rightarrow> world" where
  "setup_database w = (case db w of None \<Rightarrow> w\<lparr>db := Some []\<rparr> | Some t \<Rightarrow> w)"

text \<open>
  \<open>load_data_to_db\<close> commits after \<open>executemany\<close> has returned; when it raises,
  nothing has been committed and the database is as before.
\<close>

definition load_data_to_db :: "world \<Rightarrow> dataframe \<Rightarrow> py_error + world" where
  "load_data_to_db w df =
     (if df = [] then Inr w
      else (case db w of
              None \<Rightarrow> Inl OperationalError
            | Some t \<Rightarrow>
                (case executemany t df of
                   Inl e \<Rightarrow> Inl e
                 | Inr (t', rowcount) \<Rightarrow> Inr (w\<lparr>db := Some t'\<rparr>))))"

subsection \<open>Configuration and environment (lines 19-24)\<close>

definition SYMBOLS :: "string list" where
  "SYMBOLS = [''AAPL'', ''GOOG'', ''MSFT'']"

record request =
  req_function :: string
  req_symbol :: string
  req_apikey :: "string option"
  req_outputsize :: string

text \<open>
  The outcome of \<open>requests.get\<close>, \<open>raise_for_status\<close> and \<open>response.json()\<close>:
  one of them raises a \<open>RequestException\<close> (no connection, a time-out, a status
  4xx or 5xx, a body that is not JSON), or the decoded body is there.
\<close>

datatype response = RequestException | Body payload

record env =
  API_KEY :: "string option"     \<comment> \<open>\<open>os.getenv\<close>: \<open>None\<close> when the variable is not set\<close>
  http_get :: "request \<Rightarrow> response"
  today :: string                \<comment> \<open>\<open>datetime.now()\<close> as \<open>%Y-%m-%d\<close>\<close>
  now :: string                  \<comment> \<open>\<open>datetime.now()\<close> as \<open>%Y-%m-%d %H:%M:%S\<close>\<close>

subsection \<open>Schema validation (lines 30-44)\<close>

text \<open>
  \<open>StockDataPoint\<close>: the four prices are required floats, the volume a required
  int. pydantic takes a number, or a string that spells one, for a float, and one
  whose value is a whole number for an int.
\<close>

fun valid_float :: "cell option \<Rightarrow> bool" where
  "valid_float (Some (Number x)) = True"
| "valid_float c = False"

fun valid_int :: "cell option \<Rightarrow> bool" where
  "valid_int (Some (Number (Fin a))) = (a \<in> \<int>)"
| "valid_int c = False"

definition StockDataPoint :: "day \<Rightarrow> bool" where
  "StockDataPoint d \<longleftrightarrow>
     valid_float (f_open d) \<and> valid_float (f_high d) \<and> valid_float (f_low d) \<and>
     valid_float (f_close d) \<and> valid_int (f_volume d)"

text \<open>\<open>TimeSeriesData.model_validate\<close>: \<open>False\<close> stands for \<open>ValidationError\<close>.\<close>

definition model_validate :: "payload \<Rightarrow> bool" where
  "model_validate data =
     (case time_series data of
        None \<Rightarrow> False
      | Some ts \<Rightarrow> list_all (\<lambda>(l, d). StockDataPoint d) ts)"

subsection \<open>Extract (lines 48-89)\<close>

text \<open>
  \<open>RAW_DATA_PATH.glob(f'{symbol}_*.json')\<close>: the names of the directory that start
  with the symbol and an underscore and end in \<open>.json\<close>. (The symbol is taken to have
  no character that is special in a glob pattern.)
\<close>

definition glob_match :: "string \<Rightarrow> string \<Rightarrow> bool" where
  "glob_match s name \<longleftrightarrow>
     length s + 6 \<le> length name \<and>
     take (length s + 1) name = s @ ''_'' \<and>
     drop (length name - 5) name = ''.json''"

definition glob :: "world \<Rightarrow> string \<Rightarrow> string list" where
  "glob w s = filter (glob_match s) (map fst (raw_data w))"

definition output_size :: "world \<Rightarrow> string \<Rightarrow> string" where
  "output_size w s = (if glob w s \<noteq> [] then ''compact'' else ''full'')"

definition params :: "env \<Rightarrow> world \<Rightarrow> string \<Rightarrow> request" where
  "params e w s =
     \<lparr>req_function = ''TIME_SERIES_DAILY'', req_symbol = s,
      req_apikey = API_KEY e, req_outputsize = output_size w s\<rparr>"

definition file_path :: "env \<Rightarrow> string \<Rightarrow> string" where
  "file_path e s = s @ ''_'' @ today e @ ''.json''"

text \<open>
  The result is the path of the snapshot written, or \<open>None\<close>, with the world after
  the call. The handlers of lines 83-88 catch \<open>RequestException\<close>, \<open>ValidationError\<close>
  and \<open>KeyError\<close>; the \<open>RuntimeError\<close> of line 71 is none of them and leaves the
  function, before anything is written.
\<close>

definition fetch_stock_data ::
  "env \<Rightarrow> world \<Rightarrow> string \<Rightarrow> py_error + string option \<times> world" where
  "fetch_stock_data e w s =
     (case http_get e (params e w s) of
        RequestException \<Rightarrow> Inr (None, w)
      | Body data \<Rightarrow>
          if information data \<noteq> None then Inl RuntimeError
          else if \<not> model_validate data then Inr (None, w)
          else Inr (Some (file_path e s),
                    w\<lparr>raw_data := AList.update (file_path e s) (Doc data) (raw_data w)\<rparr>))"

subsection \<open>Transform (lines 93-133)\<close>

text \<open>
  \<open>DataFrame.from_dict(..., orient='index')\<close> makes one row per day and one column
  per field that some day has; a day without the field has \<open>NaN\<close> there.
  \<open>df[col]\<close> raises \<open>KeyError\<close> when no day has the field.
\<close>

definition has_column :: "(day \<Rightarrow> cell option) \<Rightarrow> (label \<times> day) list \<Rightarrow> bool" where
  "has_column f ts \<longleftrightarrow> list_ex (\<lambda>(l, d). f d \<noteq> None) ts"

text \<open>
  \<open>pd.to_numeric\<close> on one value: with \<open>errors='raise'\<close> (the default, line 115) a
  string that is not a number raises \<open>ValueError\<close>; with \<open>errors='coerce'\<close> (line 116)
  it becomes \<open>NaN\<close>.
\<close>

fun to_numeric :: "cell option \<Rightarrow> pyfloat option" where
  "to_numeric None = Some NaN"
| "to_numeric (Some (Number x)) = Some x"
| "to_numeric (Some (Text s)) = None"

definition to_numeric_coerce :: "cell option \<Rightarrow> pyfloat" where
  "to_numeric_coerce c = (case to_numeric c of None \<Rightarrow> NaN | Some x \<Rightarrow> x)"

text \<open>
  \<open>astype('Int64')\<close> on one value: \<open>NaN\<close> becomes \<open>NA\<close>, a whole number the
  integer; any other value makes the cast raise \<open>TypeError\<close> (the outer \<open>None\<close>).
\<close>

fun astype_Int64 :: "pyfloat \<Rightarrow> int option option" where
  "astype_Int64 NaN = Some None"
| "astype_Int64 (Fin a) = (if a \<in> \<int> then Some (Some \<lfloor>a\<rfloor>) else None)"
| "astype_Int64 x = None"

fun to_datetime :: "label \<Rightarrow> date option" where
  "to_datetime (DateLabel d) = Some d"
| "to_datetime (OtherLabel s) = None"

definition change_percentage :: "pyfloat \<Rightarrow> pyfloat \<Rightarrow> pyfloat" where
  "change_percentage c opn = py_mul (py_truediv (py_sub c opn) opn) (Fin 100)"

definition make_row :: "env \<Rightarrow> string \<Rightarrow> label \<times> day \<Rightarrow> row" where
  "make_row e s ld =
     (let opn = to_numeric_coerce (f_open (snd ld));
          cls = to_numeric_coerce (f_close (snd ld))
      in \<lparr>symbol = s,
          date = the (to_datetime (fst ld)),
          open_price = opn,
          high_price = to_numeric_coerce (f_high (snd ld)),
          low_price = to_numeric_coerce (f_low (snd ld)),
          close_price = cls,
          volume = the (astype_Int64 (to_numeric_coerce (f_volume (snd ld)))),
          daily_change_percentage = change_percentage cls opn,
          extraction_timestamp = now e\<rparr>)"

text \<open>
  The steps of the \<open>try\<close> block in their order; the first that fails decides the
  outcome. \<open>FileNotFoundError\<close>, \<open>KeyError\<close> and \<open>TypeError\<close> are caught (line 131)
  and give the empty DataFrame; \<open>ValueError\<close> and \<open>PermissionError\<close> are not among
  them and leave the function. \<open>make_row\<close> is reached only when every label is a
  date and every volume casts, so its two uses of \<open>the\<close> are on \<open>Some\<close>.
\<close>

definition price_columns :: "(day \<Rightarrow> cell option) list" where
  "price_columns = [f_open, f_high, f_low, f_close]"

fun convert_prices ::
  "(day \<Rightarrow> cell option) list \<Rightarrow> (label \<times> day) list \<Rightarrow> py_error + bool" where
  "convert_prices [] ts = Inr True"
| "convert_prices (f # fs) ts =
     (if \<not> has_column f ts then Inr False
      else if list_ex (\<lambda>(l, d). to_numeric (f d) = None) ts then Inl ValueError
      else convert_prices fs ts)"

definition transform_data :: "env \<Rightarrow> world \<Rightarrow> string \<Rightarrow> string \<Rightarrow> py_error + dataframe" where
  "transform_data e w path s =
     (case map_of (raw_data w) path of
        None \<Rightarrow> Inr []
      | Some Unreadable \<Rightarrow> Inl PermissionError
      | Some Corrupt \<Rightarrow> Inl ValueError
      | Some (Doc data) \<Rightarrow>
          (case time_series data of
             None \<Rightarrow> Inr []
           | Some ts \<Rightarrow>
               (case convert_prices price_columns ts of
                  Inl err \<Rightarrow> Inl err
                | Inr False \<Rightarrow> Inr []
                | Inr True \<Rightarrow>
                    if \<not> has_column f_volume ts then Inr []
                    else if list_ex (\<lambda>(l, d).
                              astype_Int64 (to_numeric_coerce (f_volume d)) = None) ts
                    then Inr []
                    else if list_ex (\<lambda>(l, d). to_datetime l = None) ts
                    then Inl ValueError
                    else Inr (map (make_row e s) ts))))"

subsection \<open>The pipeline (lines 198-217) and the scheduler\<close>

datatype run_result = Finished world | Aborted py_error world

fun final_world :: "run_result \<Rightarrow> world" where
  "final_world (Finished w) = w"
| "final_world (Aborted err w) = w"

text \<open>
  The loop of lines 205-209 over a list of symbols. Nothing in it catches an
  exception: one that leaves a step ends the run, with the world as it was before
  that step. A \<open>Path\<close> is true, \<open>None\<close> is false (line 207).
\<close>

fun for_symbols :: "env \<Rightarrow> string list \<Rightarrow> world \<Rightarrow> run_result" where
  "for_symbols e [] w = Finished w"
| "for_symbols e (s # rest) w =
     (case fetch_stock_data e w s of
        Inl err \<Rightarrow> Aborted err w
      | Inr (None, w1) \<Rightarrow> for_symbols e rest w1
      | Inr (Some raw_file_path, w1) \<Rightarrow>
          (case transform_data e w1 raw_file_path s of
             Inl err \<Rightarrow> Aborted err w1
           | Inr transformed_df \<Rightarrow>
               (case load_data_to_db w1 transformed_df of
                  Inl err \<Rightarrow> Aborted err w1
                | Inr w2 \<Rightarrow> for_symbols e rest w2)))"

definition run_etl_pipeline :: "env \<Rightarrow> world \<Rightarrow> run_result" where
  "run_etl_pipeline e w = for_symbols e SYMBOLS (setup_database w)"

text \<open>The script (lines 214-217): \<open>not API_KEY\<close> holds for \<open>None\<close> and for \<open>''\<close>.\<close>

definition main :: "env \<Rightarrow> world \<Rightarrow> run_result" where
  "main e w =
     (if API_KEY e = None \<or> API_KEY e = Some [] then Aborted ValueError w
      else run_etl_pipeline e w)"

text \<open>
  scheduler.py imports \<open>run_etl_pipeline\<close> and calls it once a day, each day with
  that day's environment. An exception that leaves the job leaves \<open>run_pending\<close> and
  the loop. The list is the days the process lives.
\<close>

fun scheduler :: "env list \<Rightarrow> world \<Rightarrow> run_result" where
  "scheduler [] w = Finished w"
| "scheduler (e # es) w =
     (case run_etl_pipeline e w of
        Finished w' \<Rightarrow> scheduler es w'
      | Aborted err w' \<Rightarrow> Aborted err w')"

subsection \<open>Notions used in the properties\<close>

text \<open>The records of the table; none when the table has not been created.\<close>

definition records :: "world \<Rightarrow> table" where
  "records w = (case db w of None \<Rightarrow> [] | Some t \<Rightarrow> t)"

definition unique_keys :: "table \<Rightarrow> bool" where
  "unique_keys t \<longleftrightarrow> distinct (map row_key t)"

text \<open>The world after a call of \<open>load_data_to_db\<close>, whether it returned or raised.\<close>

definition loaded :: "world \<Rightarrow> dataframe \<Rightarrow> world" where
  "loaded w df = (case load_data_to_db w df of Inl err \<Rightarrow> w | Inr w' \<Rightarrow> w')"

text \<open>
  A day as the API sends it: it passes validation, its label is a date and no price
  is \<open>NaN\<close>. A well-formed payload has no \<open>"Information"\<close> key and a time series of
  at least one such day.
\<close>

definition well_formed_day :: "label \<times> day \<Rightarrow> bool" where
  "well_formed_day ld \<longleftrightarrow>
     StockDataPoint (snd ld) \<and> to_datetime (fst ld) \<noteq> None \<and>
     f_open (snd ld) \<noteq> Some (Number NaN) \<and> f_high (snd ld) \<noteq> Some (Number NaN) \<and>
     f_low (snd ld) \<noteq> Some (Number NaN) \<and> f_close (snd ld) \<noteq> Some (Number NaN)"

definition well_formed :: "payload \<Rightarrow> bool" where
  "well_formed data \<longleftrightarrow>
     information data = None \<and>
     (case time_series data of
        None \<Rightarrow> False
      | Some ts \<Rightarrow> ts \<noteq> [] \<and> list_all well_formed_day ts)"

text \<open>The table has a record of symbol \<open>s\<close> for the day that label \<open>l\<close> names.\<close>

definition has_record :: "world \<Rightarrow> string \<Rightarrow> label \<Rightarrow> bool" where
  "has_record w s l \<longleftrightarrow>
     list_ex (\<lambda>r. symbol r = s \<and> to_datetime l = Some (date r)) (records w)"

definition stored_series :: "world \<Rightarrow> string \<Rightarrow> payload \<Rightarrow> bool" where
  "stored_series w s data \<longleftrightarrow>
     (case time_series data of
        None \<Rightarrow> False
      | Some ts \<Rightarrow> ts \<noteq> [] \<and> list_all (\<lambda>(l, d). has_record w s l) ts)"

subsection \<open>Example data\<close>

definition example_day :: "real \<Rightarrow> real \<Rightarrow> cell \<Rightarrow> day" where
  "example_day opn cls vol =
     \<lparr>f_open = Some (Number (Fin opn)), f_high = Some (Number (Fin 160)),
      f_low = Some (Number (Fin 90)), f_close = Some (Number (Fin cls)),
      f_volume = Some vol\<rparr>"

definition example_series :: "(label \<times> day) list" where
  "example_series =
     [(DateLabel ''2024-01-02'', example_day 150 153 (Number (Fin 1000))),
      (DateLabel ''2024-01-03'', example_day 100 105 (Number (Fin 2000)))]"

definition example_payload :: payload where
  "example_payload = \<lparr>information = None, time_series = Some example_series\<rparr>"

definition example_row :: "string \<Rightarrow> date \<Rightarrow> row" where
  "example_row s d =
     \<lparr>symbol = s, date = d, open_price = Fin 100, high_price = Fin 160,
      low_price = Fin 90, close_price = Fin 105, volume = Some 2000,
      daily_change_percentage = Fin 5, extraction_timestamp = ''2024-01-04 00:30:00''\<rparr>"

definition fresh :: world where
  "fresh = \<lparr>raw_data = [], db = None\<rparr>"

text \<open>An environment whose server answers by the symbol of the request alone.\<close>

definition example_env :: "string option \<Rightarrow> (string \<Rightarrow> response) \<Rightarrow> env" where
  "example_env key server =
     \<lparr>API_KEY = key, http_get = (\<lambda>q. server (req_symbol q)),
      today = ''2024-01-04'', now = ''2024-01-04 00:30:00''\<rparr>"

definition second_fails :: "string \<Rightarrow> response" where
  "second_fails s = (if s = ''GOOG'' then RequestException else Body example_payload)"

text \<open>A payload that carries a message and no time series.\<close>

definition information_only :: payload where
  "information_only =
     \<lparr>information = Some ''Thank you for using Alpha Vantage! Our standard API rate limit is 25 requests per day.'',
      time_series = None\<rparr>"

definition first_limited :: "string \<Rightarrow> response" where
  "first_limited s = (if s = ''AAPL'' then Body information_only else Body example_payload)"

definition always_answers :: "string \<Rightarrow> response" where
  "always_answers s = Body example_payload"




text \<open>A world whose directory holds one file, under the name of a snapshot.\<close>

definition with_snapshot :: "snapshot \<Rightarrow> world" where
  "with_snapshot f = \<lparr>raw_data = [(''AAPL_2024-01-04.json'', f)], db = Some []\<rparr>"

section \<open>Properties\<close>

subsection \<open>The loader\<close>

lemma executemany_appends:
  "executemany t rs = Inr (t', n) \<Longrightarrow>
     \<exists>new. t' = t @ new \<and> length new = n \<and> set new \<subseteq> set rs \<and>
           (\<forall>r \<in> set new. \<not> violates_not_null r)"
proof (induction rs arbitrary: t t' n)
  case Nil
  then show ?case by simp
next
  case (Cons r rs)
  from Cons.prems have v: "volume r \<noteq> None"
    by (auto split: if_splits)
  obtain u k where ins: "insert_or_ignore t r = (u, k)"
    by (cases "insert_or_ignore t r")
  with Cons.prems v obtain m where rest: "executemany u rs = Inr (t', m)" and n: "n = k + m"
    by (auto split: sum.splits prod.splits)
  from Cons.IH [OF rest] obtain new where
    new: "t' = u @ new" "length new = m" "set new \<subseteq> set rs" "\<forall>r \<in> set new. \<not> violates_not_null r"
    by blast
  from ins consider (ignored) "u = t" "k = 0"
    | (inserted) "u = t @ [r]" "k = 1" "\<not> violates_not_null r"
    by (auto simp: insert_or_ignore_def split: if_splits)
  then show ?case
  proof cases
    case ignored
    with new n have "t' = t @ new \<and> length new = n \<and> set new \<subseteq> set (r # rs) \<and>
        (\<forall>x \<in> set new. \<not> violates_not_null x)"
      by auto
    then show ?thesis by blast
  next
    case inserted
    with new n have "t' = t @ (r # new) \<and> length (r # new) = n \<and>
        set (r # new) \<subseteq> set (r # rs) \<and> (\<forall>x \<in> set (r # new). \<not> violates_not_null x)"
      by auto
    then show ?thesis by blast
  qed
qed

lemma executemany_unique:
  "executemany t rs = Inr (t', n) \<Longrightarrow> unique_keys t \<Longrightarrow> unique_keys t'"
proof (induction rs arbitrary: t t' n)
  case Nil
  then show ?case by simp
next
  case (Cons r rs)
  from Cons.prems have v: "volume r \<noteq> None"
    by (auto split: if_splits)
  obtain u k where ins: "insert_or_ignore t r = (u, k)"
    by (cases "insert_or_ignore t r")
  with Cons.prems v obtain m where rest: "executemany u rs = Inr (t', m)"
    by (auto split: sum.splits prod.splits)
  from ins Cons.prems(2) have "unique_keys u"
    by (auto simp: insert_or_ignore_def unique_keys_def violates_unique_def split: if_splits)
  with Cons.IH [OF rest] show ?case .
qed

lemma executemany_covers:
  "executemany t rs = Inr (t', n) \<Longrightarrow>
     \<forall>r \<in> set rs. volume r \<noteq> None \<and> (violates_not_null r \<or> violates_unique t' r)"
proof (induction rs arbitrary: t t' n)
  case Nil
  then show ?case by simp
next
  case (Cons r rs)
  from Cons.prems have v: "volume r \<noteq> None"
    by (auto split: if_splits)
  obtain u k where ins: "insert_or_ignore t r = (u, k)"
    by (cases "insert_or_ignore t r")
  with Cons.prems v obtain m where rest: "executemany u rs = Inr (t', m)"
    by (auto split: sum.splits prod.splits)
  from executemany_appends [OF rest] obtain new where new: "t' = u @ new" by blast
  from ins have "violates_not_null r \<or> violates_unique u r"
    by (auto simp: insert_or_ignore_def violates_unique_def split: if_splits)
  with new have "violates_not_null r \<or> violates_unique t' r"
    by (auto simp: violates_unique_def)
  with v Cons.IH [OF rest] show ?case by simp
qed

lemma executemany_all_ignored:
  "\<forall>r \<in> set rs. volume r \<noteq> None \<and> (violates_not_null r \<or> violates_unique t r) \<Longrightarrow>
     executemany t rs = Inr (t, 0)"
  by (induction rs) (auto simp: insert_or_ignore_def)

lemma executemany_again:
  "executemany t rs = Inr (t', n) \<Longrightarrow> executemany t' rs = Inr (t', 0)"
  by (rule executemany_all_ignored) (rule executemany_covers)

lemma load_again:
  "load_data_to_db w df = Inr w' \<Longrightarrow> load_data_to_db w' df = Inr w'"
  by (auto simp: load_data_to_db_def dest: executemany_again split: if_splits option.splits sum.splits)

lemma executemany_succeeds:
  "\<forall>r \<in> set rs. volume r \<noteq> None \<Longrightarrow> \<exists>t' n. executemany t rs = Inr (t', n)"
proof (induction rs arbitrary: t)
  case Nil
  then show ?case by simp
next
  case (Cons r rs)
  obtain u k where ins: "insert_or_ignore t r = (u, k)"
    by (cases "insert_or_ignore t r")
  from Cons.prems have "\<forall>r \<in> set rs. volume r \<noteq> None" by simp
  from Cons.IH [OF this] obtain t' n where "executemany u rs = Inr (t', n)" by blast
  with Cons.prems ins show ?case by simp
qed

lemma load_extends:
  assumes "load_data_to_db w df = Inr w'"
  shows "prefix (records w) (records w')" and "raw_data w' = raw_data w"
    and "unique_keys (records w) \<Longrightarrow> unique_keys (records w')"
    and "db w \<noteq> None \<Longrightarrow> db w' \<noteq> None"
proof -
  show "prefix (records w) (records w')"
    using assms
    by (auto simp: load_data_to_db_def records_def dest!: executemany_appends
        split: if_splits option.splits sum.splits)
  show "raw_data w' = raw_data w"
    using assms
    by (auto simp: load_data_to_db_def split: if_splits option.splits sum.splits)
  show "unique_keys (records w')" if "unique_keys (records w)"
    using assms that
    by (auto simp: load_data_to_db_def records_def dest: executemany_unique
        split: if_splits option.splits sum.splits)
  show "db w' \<noteq> None" if "db w \<noteq> None"
    using assms that
    by (auto simp: load_data_to_db_def split: if_splits option.splits sum.splits)
qed

text \<open>
  C3. Loading a row-set a second time leaves the store as the first load left it,
  whatever the row-set and the store, and also when the load raises; and when
  \<open>executemany\<close> has inserted a list of tuples, executing the same list again on
  the resulting table inserts zero rows.
\<close>

theorem load_twice:
  "loaded (loaded w df) df = loaded w df \<and>
   (\<forall>t t' n. executemany t df = Inr (t', n) \<longrightarrow> executemany t' df = Inr (t', 0))"
proof (intro conjI allI impI)
  show "loaded (loaded w df) df = loaded w df"
  proof (cases "load_data_to_db w df")
    case (Inl err)
    then show ?thesis by (simp add: loaded_def)
  next
    case (Inr w')
    with load_again [OF Inr] show ?thesis by (simp add: loaded_def)
  qed
next
  fix t t' n
  assume "executemany t df = Inr (t', n)"
  then show "executemany t' df = Inr (t', 0)" by (rule executemany_again)
qed


theorem load_twice_witness:
  "loaded (loaded (fresh\<lparr>db := Some []\<rparr>) [example_row ''AAPL'' ''2024-01-03''])
       [example_row ''AAPL'' ''2024-01-03'']
     = loaded (fresh\<lparr>db := Some []\<rparr>) [example_row ''AAPL'' ''2024-01-03''] \<and>
   executemany [] [example_row ''AAPL'' ''2024-01-03'']
     = Inr ([example_row ''AAPL'' ''2024-01-03''], 1) \<and>
   executemany [example_row ''AAPL'' ''2024-01-03''] [example_row ''AAPL'' ''2024-01-03'']
     = Inr ([example_row ''AAPL'' ''2024-01-03''], 0)"
proof -
  let ?r = "example_row ''AAPL'' ''2024-01-03''"
  have first: "executemany [] [?r] = Inr ([?r], 1)"
    by (simp add: example_row_def insert_or_ignore_def violates_not_null_def
        violates_unique_def)
  with load_twice [of "fresh\<lparr>db := Some []\<rparr>" "[?r]"] show ?thesis
    by blast
qed

subsection \<open>The store only grows, and without duplicates\<close>

lemma fetch_keeps_db: "fetch_stock_data e w s = Inr (p, w1) \<Longrightarrow> db w1 = db w"
  by (auto simp: fetch_stock_data_def split: response.splits if_splits)

lemma fetch_keeps_records:
  "fetch_stock_data e w s = Inr (p, w1) \<Longrightarrow> records w1 = records w"
  by (simp add: records_def fetch_keeps_db)

lemma for_symbols_extends:
  "prefix (records w) (records (final_world (for_symbols e ss w))) \<and>
   (unique_keys (records w) \<longrightarrow> unique_keys (records (final_world (for_symbols e ss w))))"
proof (induction ss arbitrary: w)
  case Nil
  then show ?case by simp
next
  case (Cons s ss)
  show ?case
  proof (cases "fetch_stock_data e w s")
    case (Inl err)
    then show ?thesis by simp
  next
    case (Inr pw)
    obtain p w1 where pw: "pw = (p, w1)" by (cases pw)
    with Inr have same: "records w1 = records w" by (simp add: fetch_keeps_records)
    show ?thesis
    proof (cases p)
      case None
      with Inr pw same Cons.IH [of w1] show ?thesis by simp
    next
      case (Some path)
      show ?thesis
      proof (cases "transform_data e w1 path s")
        case (Inl err)
        with Inr pw Some same show ?thesis by simp
      next
        case df: (Inr df)
        show ?thesis
        proof (cases "load_data_to_db w1 df")
          case (Inl err)
          with Inr pw Some df same show ?thesis by simp
        next
          case w2: (Inr w2)
          from load_extends(1) [OF w2] same have "prefix (records w) (records w2)" by simp
          moreover from load_extends(3) [OF w2] same
          have "unique_keys (records w) \<longrightarrow> unique_keys (records w2)" by simp
          moreover have "for_symbols e (s # ss) w = for_symbols e ss w2"
            using Inr pw Some df w2 by simp
          ultimately show ?thesis
            using Cons.IH [of w2] by (auto intro: prefix_order.trans)
        qed
      qed
    qed
  qed
qed

lemma setup_database_records: "records (setup_database w) = records w"
  by (simp add: setup_database_def records_def split: option.splits)

lemma run_extends:
  "prefix (records w) (records (final_world (run_etl_pipeline e w))) \<and>
   (unique_keys (records w) \<longrightarrow> unique_keys (records (final_world (run_etl_pipeline e w))))"
  using for_symbols_extends [of "setup_database w" e SYMBOLS]
  by (simp add: run_etl_pipeline_def setup_database_records)

lemma scheduler_extends:
  "prefix (records w) (records (final_world (scheduler es w))) \<and>
   (unique_keys (records w) \<longrightarrow> unique_keys (records (final_world (scheduler es w))))"
proof (induction es arbitrary: w)
  case Nil
  then show ?case by simp
next
  case (Cons e es)
  show ?case
  proof (cases "run_etl_pipeline e w")
    case (Finished w')
    with run_extends [of w e] Cons.IH [of w'] show ?thesis
      by (auto intro: prefix_order.trans)
  next
    case (Aborted err w')
    with run_extends [of w e] show ?thesis by simp
  qed
qed

lemma loaded_extends:
  "prefix (records w) (records (loaded w df)) \<and>
   (unique_keys (records w) \<longrightarrow> unique_keys (records (loaded w df)))"
  by (cases "load_data_to_db w df") (simp_all add: loaded_def load_extends)

text \<open>
  C4. When no two records of the store share their (symbol, date), this is still so
  after a load of any row-set and after any number of daily runs of the pipeline, in
  any environments and whether they finish or abort; and the records that were there
  are the first records of the store afterwards, unchanged and in their order: nothing
  is updated or deleted.
\<close>

theorem store_unique_append_only:
  assumes "unique_keys (records w)"
  shows "unique_keys (records (loaded w df)) \<and> prefix (records w) (records (loaded w df)) \<and>
         unique_keys (records (final_world (scheduler es w))) \<and>
         prefix (records w) (records (final_world (scheduler es w)))"
  using assms loaded_extends [of w df] scheduler_extends [of w es] by simp

theorem store_unique_append_only_witness:
  "unique_keys (records (fresh\<lparr>db := Some [example_row ''AAPL'' ''2024-01-03'']\<rparr>)) \<and>
   unique_keys (records (final_world (scheduler
      [example_env (Some ''demo'') second_fails, example_env (Some ''demo'') second_fails]
      (fresh\<lparr>db := Some [example_row ''AAPL'' ''2024-01-03'']\<rparr>)))) \<and>
   prefix [example_row ''AAPL'' ''2024-01-03'']
     (records (loaded (fresh\<lparr>db := Some [example_row ''AAPL'' ''2024-01-03'']\<rparr>)
        [example_row ''AAPL'' ''2024-01-03'', example_row ''AAPL'' ''2024-01-04'']))"
proof -
  let ?w = "fresh\<lparr>db := Some [example_row ''AAPL'' ''2024-01-03'']\<rparr>"
  have r: "records ?w = [example_row ''AAPL'' ''2024-01-03'']"
    by (simp add: records_def)
  then have "unique_keys (records ?w)"
    by (simp add: unique_keys_def)
  with store_unique_append_only [of ?w
      "[example_row ''AAPL'' ''2024-01-03'', example_row ''AAPL'' ''2024-01-04'']"
      "[example_env (Some ''demo'') second_fails, example_env (Some ''demo'') second_fails]"] r
  show ?thesis by simp
qed

subsection \<open>A well-formed payload goes through\<close>

lemma valid_float_numeric: "valid_float c \<Longrightarrow> c \<noteq> None \<and> to_numeric c \<noteq> None"
  by (cases c rule: valid_float.cases) simp_all

lemma valid_int_casts:
  "valid_int c \<Longrightarrow>
     c \<noteq> None \<and> (\<exists>v. astype_Int64 (to_numeric_coerce c) = Some (Some v))"
  by (cases c rule: valid_int.cases) (simp_all add: to_numeric_coerce_def)

lemma has_column_valid:
  assumes "ts \<noteq> []" and "\<forall>ld \<in> set ts. f (snd ld) \<noteq> None"
  shows "has_column f ts"
proof -
  from assms(1) obtain ld where "ld \<in> set ts" by (cases ts) auto
  with assms(2) have "\<exists>x \<in> set ts. f (snd x) \<noteq> None" by blast
  then show ?thesis
    by (simp add: has_column_def list_ex_iff case_prod_beta)
qed

lemma convert_prices_valid:
  assumes "ts \<noteq> []" and "\<forall>ld \<in> set ts. StockDataPoint (snd ld)"
  shows "convert_prices price_columns ts = Inr True"
proof -
  have a: "has_column f ts \<and> \<not> list_ex (\<lambda>(l, d). to_numeric (f d) = None) ts"
    if "\<forall>ld \<in> set ts. valid_float (f (snd ld))" for f
  proof
    from that have "\<forall>ld \<in> set ts. f (snd ld) \<noteq> None"
      using valid_float_numeric by blast
    with assms(1) show "has_column f ts" by (rule has_column_valid)
    from that show "\<not> list_ex (\<lambda>(l, d). to_numeric (f d) = None) ts"
      using valid_float_numeric by (fastforce simp: list_ex_iff)
  qed
  from assms(2) have "\<forall>ld \<in> set ts. valid_float (f_open (snd ld))"
    "\<forall>ld \<in> set ts. valid_float (f_high (snd ld))"
    "\<forall>ld \<in> set ts. valid_float (f_low (snd ld))"
    "\<forall>ld \<in> set ts. valid_float (f_close (snd ld))"
    by (simp_all add: StockDataPoint_def)
  then show ?thesis
    by (simp add: price_columns_def a)
qed

lemma transform_well_formed:
  assumes snap: "map_of (raw_data w) path = Some (Doc data)"
    and wf: "well_formed data" and ts: "time_series data = Some ts"
  shows "transform_data e w path s = Inr (map (make_row e s) ts)"
proof -
  from wf ts have ne: "ts \<noteq> []" and days: "\<forall>ld \<in> set ts. well_formed_day ld"
    by (simp_all add: well_formed_def list_all_iff)
  from days have sdp: "\<forall>ld \<in> set ts. StockDataPoint (snd ld)"
    by (simp add: well_formed_day_def)
  have prices: "convert_prices price_columns ts = Inr True"
    using ne sdp by (rule convert_prices_valid)
  from sdp have vol: "\<forall>ld \<in> set ts. valid_int (f_volume (snd ld))"
    by (simp add: StockDataPoint_def)
  then have "\<forall>ld \<in> set ts. f_volume (snd ld) \<noteq> None"
    using valid_int_casts by blast
  with ne have col: "has_column f_volume ts" by (rule has_column_valid)
  from vol have cast: "\<not> list_ex (\<lambda>(l, d). astype_Int64 (to_numeric_coerce (f_volume d)) = None) ts"
    using valid_int_casts by (fastforce simp: list_ex_iff)
  from days have dates: "\<not> list_ex (\<lambda>(l, d). to_datetime l = None) ts"
    by (fastforce simp: list_ex_iff well_formed_day_def)
  show ?thesis
    by (simp add: transform_data_def snap ts prices col cast dates)
qed

lemma make_row_well_formed:
  assumes "well_formed_day ld"
  shows "\<not> violates_not_null (make_row e s ld) \<and> symbol (make_row e s ld) = s \<and>
         to_datetime (fst ld) = Some (date (make_row e s ld))"
proof -
  from assms have sdp: "StockDataPoint (snd ld)" and d: "to_datetime (fst ld) \<noteq> None"
    and nn: "f_open (snd ld) \<noteq> Some (Number NaN)" "f_high (snd ld) \<noteq> Some (Number NaN)"
      "f_low (snd ld) \<noteq> Some (Number NaN)" "f_close (snd ld) \<noteq> Some (Number NaN)"
    by (simp_all add: well_formed_day_def)
  have p: "to_numeric_coerce c \<noteq> NaN" if "valid_float c" "c \<noteq> Some (Number NaN)" for c
    using that by (cases c rule: valid_float.cases) (simp_all add: to_numeric_coerce_def)
  from sdp obtain v where "astype_Int64 (to_numeric_coerce (f_volume (snd ld))) = Some (Some v)"
    using valid_int_casts by (auto simp: StockDataPoint_def)
  with sdp nn d show ?thesis
    by (auto simp: make_row_def Let_def violates_not_null_def StockDataPoint_def p)
qed


lemma well_formed_validates: "well_formed data \<Longrightarrow> model_validate data"
  by (auto simp: well_formed_def model_validate_def well_formed_day_def list_all_iff
      split: option.splits)

lemma fetch_saves:
  assumes "http_get e (params e w s) = Body data" "information data = None" "model_validate data"
  shows "fetch_stock_data e w s =
           Inr (Some (file_path e s),
                w\<lparr>raw_data := AList.update (file_path e s) (Doc data) (raw_data w)\<rparr>)"
  using assms by (simp add: fetch_stock_data_def)


lemma has_record_prefix:
  "prefix (records w) (records w') \<Longrightarrow> has_record w s l \<Longrightarrow> has_record w' s l"
  by (auto simp: has_record_def list_ex_iff prefix_def)

lemma step_well_formed:
  assumes http: "http_get e (params e w s) = Body data"
    and wf: "well_formed data" and ts: "time_series data = Some ts"
    and tab: "db w \<noteq> None"
  shows "\<exists>w2. (\<forall>rest. for_symbols e (s # rest) w = for_symbols e rest w2) \<and>
           db w2 \<noteq> None \<and> prefix (records w) (records w2) \<and>
           (\<forall>ld \<in> set ts. has_record w2 s (fst ld))"
proof -
  define path where "path = file_path e s"
  define w1 where "w1 = w\<lparr>raw_data := AList.update path (Doc data) (raw_data w)\<rparr>"
  define rows where "rows = map (make_row e s) ts"
  from wf have info: "information data = None" by (simp add: well_formed_def)
  from wf ts have ne: "ts \<noteq> []" and days: "\<forall>ld \<in> set ts. well_formed_day ld"
    by (simp_all add: well_formed_def list_all_iff)
  have fetch: "fetch_stock_data e w s = Inr (Some path, w1)"
    using fetch_saves [OF http info well_formed_validates [OF wf]]
    by (simp add: path_def w1_def)
  have "map_of (raw_data w1) path = Some (Doc data)"
    by (simp add: w1_def update_conv')
  then have transform: "transform_data e w1 path s = Inr rows"
    unfolding rows_def using wf ts by (rule transform_well_formed)
  from tab obtain t where t: "db w1 = Some t" by (auto simp: w1_def)
  from days have nn: "\<forall>r \<in> set rows. \<not> violates_not_null r"
    by (auto simp: rows_def make_row_well_formed)
  then have "\<forall>r \<in> set rows. volume r \<noteq> None"
    by (simp add: violates_not_null_def)
  from executemany_succeeds [OF this] obtain t' n where ex: "executemany t rows = Inr (t', n)"
    by blast
  define w2 where "w2 = w1\<lparr>db := Some t'\<rparr>"
  from ne have "rows \<noteq> []" by (simp add: rows_def)
  with t ex have load: "load_data_to_db w1 rows = Inr w2"
    by (simp add: load_data_to_db_def w2_def)
  have step: "\<forall>rest. for_symbols e (s # rest) w = for_symbols e rest w2"
    by (simp add: fetch transform load)
  have "records w1 = records w" by (simp add: w1_def records_def)
  with load_extends(1) [OF load] have pre: "prefix (records w) (records w2)" by simp
  have "has_record w2 s (fst ld)" if "ld \<in> set ts" for ld
  proof -
    let ?r = "make_row e s ld"
    from that have "?r \<in> set rows" by (simp add: rows_def)
    with executemany_covers [OF ex] nn have "violates_unique t' ?r" by blast
    then obtain r' where r': "r' \<in> set t'" "row_key r' = row_key ?r"
      by (auto simp: violates_unique_def)
    from that days have "symbol ?r = s" "to_datetime (fst ld) = Some (date ?r)"
      by (simp_all add: make_row_well_formed)
    with r' show ?thesis
      by (auto simp: has_record_def list_ex_iff records_def w2_def row_key_def)
  qed
  with step pre show ?thesis
    by (auto simp: w2_def)
qed


lemma setup_database_table: "db (setup_database w) \<noteq> None"
  by (simp add: setup_database_def split: option.splits)




subsection \<open>The "Information" payload\<close>

lemma information_raises:
  assumes "http_get e (params e w s) = Body data" "information data \<noteq> None"
  shows "fetch_stock_data e w s = Inl RuntimeError \<and>
         for_symbols e (s # rest) w = Aborted RuntimeError w"
  using assms by (simp add: fetch_stock_data_def)

text \<open>
  C1, as the claim states it, fails. The server answers the first symbol with a
  payload that has only the \<open>"Information"\<close> message, and the two others with
  well-formed payloads. \<open>fetch_stock_data\<close> does not return \<open>None\<close>: the
  \<open>RuntimeError\<close> leaves it, and it ends the run before the second and the third
  symbol are fetched; the table stays empty.
\<close>

theorem rate_limit_escapes:
  "fetch_stock_data (example_env (Some ''demo'') first_limited) (setup_database fresh) ''AAPL''
     = Inl RuntimeError \<and>
   run_etl_pipeline (example_env (Some ''demo'') first_limited) fresh
     = Aborted RuntimeError \<lparr>raw_data = [], db = Some []\<rparr>"
proof -
  let ?e = "example_env (Some ''demo'') first_limited"
  have w: "setup_database fresh = \<lparr>raw_data = [], db = Some []\<rparr>"
    by (simp add: setup_database_def fresh_def)
  have "http_get ?e (params ?e (setup_database fresh) ''AAPL'') = Body information_only"
    by (simp add: example_env_def first_limited_def params_def)
  moreover have "information information_only \<noteq> None"
    by (simp add: information_only_def)
  ultimately show ?thesis
    using information_raises [of ?e "setup_database fresh" "''AAPL''" information_only]
    by (simp add: run_etl_pipeline_def SYMBOLS_def w)
qed

text \<open>
  C1, amended. When the response to a symbol's request carries the \<open>"Information"\<close>
  message and no time series, \<open>fetch_stock_data\<close> raises \<open>RuntimeError\<close>; this is
  not the outcome of a validation failure (which the payload would also be), where the
  function returns \<open>None\<close>. Nothing catches the exception: the loop over the
  symbols is aborted with the world as it was, so no row is stored for that symbol and
  the remaining symbols are not processed.
\<close>

theorem rate_limit_raises:
  assumes "http_get e (params e w s) = Body data"
    and "information data = Some m" and "time_series data = None"
  shows "\<not> model_validate data \<and>
         fetch_stock_data e w s = Inl RuntimeError \<and>
         fetch_stock_data e w s \<noteq> Inr (None, w) \<and>
         for_symbols e (s # rest) w = Aborted RuntimeError w"
  using assms information_raises [of e w s data rest]
  by (simp add: model_validate_def)

theorem rate_limit_raises_witness:
  "http_get (example_env (Some ''demo'') first_limited)
      (params (example_env (Some ''demo'') first_limited) (setup_database fresh) ''AAPL'')
     = Body information_only \<and>
   time_series information_only = None \<and>
   \<not> model_validate information_only \<and>
   for_symbols (example_env (Some ''demo'') first_limited) [''AAPL'', ''GOOG'', ''MSFT'']
      (setup_database fresh)
     = Aborted RuntimeError (setup_database fresh)"
proof -
  let ?e = "example_env (Some ''demo'') first_limited"
  have h: "http_get ?e (params ?e (setup_database fresh) ''AAPL'') = Body information_only"
    by (simp add: example_env_def first_limited_def params_def)
  have i: "information information_only =
      Some ''Thank you for using Alpha Vantage! Our standard API rate limit is 25 requests per day.''"
    and t: "time_series information_only = None"
    by (simp_all add: information_only_def)
  from rate_limit_raises [OF h i t, of "[''GOOG'', ''MSFT'']"] h t show ?thesis
    by simp
qed

text \<open>
  C10. Whenever the decoded response has the key \<open>"Information"\<close>, whatever else it
  holds, \<open>fetch_stock_data\<close> raises \<open>RuntimeError\<close> and the loop ends with the
  world unchanged: no snapshot is written and no row reaches the store. The check comes
  before validation: when the payload validates, the same payload without the key is
  saved as a snapshot.
\<close>

theorem information_checked_first:
  assumes "http_get e (params e w s) = Body data" and "information data = Some m"
  shows "fetch_stock_data e w s = Inl RuntimeError \<and>
         final_world (for_symbols e (s # rest) w) = w \<and>
         (model_validate data \<and> http_get e' (params e' w s) = Body (data\<lparr>information := None\<rparr>)
            \<longrightarrow> fetch_stock_data e' w s =
                  Inr (Some (file_path e' s),
                       w\<lparr>raw_data := AList.update (file_path e' s)
                            (Doc (data\<lparr>information := None\<rparr>)) (raw_data w)\<rparr>))"
proof -
  have "model_validate (data\<lparr>information := None\<rparr>) = model_validate data"
    by (simp add: model_validate_def)
  with assms information_raises [of e w s data rest] show ?thesis
    by (simp add: fetch_saves)
qed

theorem information_checked_first_witness:
  "model_validate (example_payload\<lparr>information := Some ''limit''\<rparr>) \<and>
   fetch_stock_data (example_env (Some ''demo'')
        (\<lambda>s. Body (example_payload\<lparr>information := Some ''limit''\<rparr>))) fresh ''AAPL''
     = Inl RuntimeError \<and>
   fetch_stock_data (example_env (Some ''demo'') (\<lambda>s. Body example_payload)) fresh ''AAPL''
     = Inr (Some ''AAPL_2024-01-04.json'',
            \<lparr>raw_data = [(''AAPL_2024-01-04.json'', Doc example_payload)], db = None\<rparr>)"
proof -
  let ?d = "example_payload\<lparr>information := Some ''limit''\<rparr>"
  let ?e = "example_env (Some ''demo'') (\<lambda>s. Body ?d)"
  let ?e' = "example_env (Some ''demo'') (\<lambda>s. Body example_payload)"
  have v: "model_validate ?d"
    by (simp add: model_validate_def example_payload_def example_series_def
        example_day_def StockDataPoint_def)
  have h: "http_get ?e (params ?e fresh ''AAPL'') = Body ?d"
    by (simp add: example_env_def)
  have i: "information ?d = Some ''limit''" by simp
  have n: "?d\<lparr>information := None\<rparr> = example_payload"
    by (simp add: example_payload_def)
  have h': "http_get ?e' (params ?e' fresh ''AAPL'') = Body (?d\<lparr>information := None\<rparr>)"
    by (simp add: example_env_def n)
  from information_checked_first [OF h i, of "[]" ?e'] v h' n show ?thesis
    by (simp add: file_path_def example_env_def fresh_def)
qed

subsection \<open>Rows of the transformation\<close>













subsection \<open>The credential check and the snapshot read back\<close>

lemma example_payload_well_formed: "well_formed example_payload"
  by (simp add: well_formed_def example_payload_def example_series_def well_formed_day_def
      example_day_def StockDataPoint_def)

lemma for_symbols_well_formed:
  assumes "\<forall>q. \<exists>data. http_get e q = Body data \<and> well_formed data"
  shows "db w \<noteq> None \<Longrightarrow> \<exists>w'. for_symbols e ss w = Finished w' \<and> db w' \<noteq> None \<and>
            prefix (records w) (records w')"
proof (induction ss arbitrary: w)
  case Nil
  then show ?case by simp
next
  case (Cons s ss)
  from assms obtain data where d: "http_get e (params e w s) = Body data" "well_formed data"
    by blast
  then obtain ts where ts: "time_series data = Some ts"
    by (auto simp: well_formed_def split: option.splits)
  from step_well_formed [OF d ts Cons.prems] obtain w2 where
    w2: "\<forall>rest. for_symbols e (s # rest) w = for_symbols e rest w2" "db w2 \<noteq> None"
      "prefix (records w) (records w2)"
    by blast
  from Cons.IH [OF w2(2)] obtain w' where
    "for_symbols e ss w2 = Finished w'" "db w' \<noteq> None" "prefix (records w2) (records w')"
    by blast
  with w2 show ?case
    by (auto intro: prefix_order.trans)
qed

text \<open>
  C7. With no credential in the environment, the script aborts with \<open>ValueError\<close>
  before anything is done. The scheduler calls \<open>run_etl_pipeline\<close> directly, where
  nothing checks the credential: with the same environment the run fetches, transforms
  and loads every symbol.
\<close>

theorem credential_checked_by_script_only:
  "main (example_env None always_answers) fresh = Aborted ValueError fresh \<and>
   (\<exists>w'. scheduler [example_env None always_answers] fresh = Finished w' \<and>
      stored_series w' ''AAPL'' example_payload)"
proof -
  let ?e = "example_env None always_answers"
  have key: "API_KEY ?e = None" by (simp add: example_env_def)
  then have m: "main ?e fresh = Aborted ValueError fresh" by (simp add: main_def)
  have h: "http_get ?e (params ?e (setup_database fresh) ''AAPL'') = Body example_payload"
    by (simp add: example_env_def always_answers_def)
  have ts: "time_series example_payload = Some example_series"
    by (simp add: example_payload_def)
  from step_well_formed [OF h example_payload_well_formed ts setup_database_table]
  obtain w1 where w1:
    "\<forall>rest. for_symbols ?e (''AAPL'' # rest) (setup_database fresh) = for_symbols ?e rest w1"
    "db w1 \<noteq> None" "\<forall>ld \<in> set example_series. has_record w1 ''AAPL'' (fst ld)"
    by blast
  have "\<forall>q. \<exists>data. http_get ?e q = Body data \<and> well_formed data"
    by (simp add: example_env_def always_answers_def example_payload_well_formed)
  from for_symbols_well_formed [OF this w1(2), of "[''GOOG'', ''MSFT'']"]
  obtain w' where w': "for_symbols ?e [''GOOG'', ''MSFT''] w1 = Finished w'"
    "prefix (records w1) (records w')"
    by blast
  from w1(3) w'(2) have "\<forall>ld \<in> set example_series. has_record w' ''AAPL'' (fst ld)"
    using has_record_prefix by blast
  then have "stored_series w' ''AAPL'' example_payload"
    by (simp add: stored_series_def ts list_all_iff case_prod_beta example_series_def)
  moreover from w1(1) w'(1) have "scheduler [?e] fresh = Finished w'"
    by (simp add: run_etl_pipeline_def SYMBOLS_def)
  ultimately show ?thesis using m by blast
qed

text \<open>
  C8. A snapshot that is not JSON when it is read back makes \<open>json.load\<close> raise a
  \<open>ValueError\<close>, and one that cannot be opened makes \<open>open\<close> raise
  \<open>PermissionError\<close>; neither is among the exceptions that line 131 catches, so
  both leave \<open>transform_data\<close>. A missing file gives the empty DataFrame.
\<close>

theorem corrupt_snapshot_raises:
  "transform_data (example_env (Some ''demo'') always_answers) (with_snapshot Corrupt)
      ''AAPL_2024-01-04.json'' ''AAPL'' = Inl ValueError \<and>
   transform_data (example_env (Some ''demo'') always_answers) (with_snapshot Unreadable)
      ''AAPL_2024-01-04.json'' ''AAPL'' = Inl PermissionError \<and>
   transform_data (example_env (Some ''demo'') always_answers) (with_snapshot Corrupt)
      ''AAPL_2024-01-03.json'' ''AAPL'' = Inr []"
  by (simp add: transform_data_def with_snapshot_def)

subsection \<open>The size of the request\<close>

lemma affix_iff:
  "length s + length u + length v \<le> length name \<and> take (length s + length u) name = s @ u \<and>
     drop (length name - length v) name = v
   \<longleftrightarrow> (\<exists>mid. name = s @ u @ mid @ v)"
proof
  assume g: "length s + length u + length v \<le> length name \<and>
     take (length s + length u) name = s @ u \<and> drop (length name - length v) name = v"
  define rest where "rest = drop (length s + length u) name"
  define k where "k = length rest - length v"
  from g have len: "length s + length u + length v \<le> length name"
    and pre: "take (length s + length u) name = s @ u"
    and suf: "drop (length name - length v) name = v"
    by blast+
  have name: "name = (s @ u) @ rest"
    using pre append_take_drop_id [of "length s + length u" name] by (simp add: rest_def)
  have "drop k rest = drop (k + (length s + length u)) name"
    by (simp add: rest_def)
  moreover from len have "k + (length s + length u) = length name - length v"
    by (simp add: k_def rest_def)
  ultimately have "drop k rest = v"
    using suf by simp
  then have "rest = take k rest @ v"
    using append_take_drop_id [of k rest] by simp
  with name have "name = s @ u @ take k rest @ v"
    by simp
  then show "\<exists>mid. name = s @ u @ mid @ v" ..
next
  assume "\<exists>mid. name = s @ u @ mid @ v"
  then obtain mid where "name = s @ u @ mid @ v" ..
  then show "length s + length u + length v \<le> length name \<and>
     take (length s + length u) name = s @ u \<and> drop (length name - length v) name = v"
    by simp
qed

lemma glob_match_iff:
  "glob_match s name \<longleftrightarrow> (\<exists>mid. name = s @ ''_'' @ mid @ ''.json'')"
proof -
  have "glob_match s name \<longleftrightarrow>
      length s + length ''_'' + length ''.json'' \<le> length name \<and>
      take (length s + length ''_'') name = s @ ''_'' \<and>
      drop (length name - length ''.json'') name = ''.json''"
    by (simp add: glob_match_def eval_nat_numeral)
  then show ?thesis
    by (simp only: affix_iff)
qed

lemma glob_nonempty:
  "glob w s \<noteq> [] \<longleftrightarrow>
     (\<exists>name \<in> fst ` set (raw_data w). \<exists>mid. name = s @ ''_'' @ mid @ ''.json'')"
  by (simp add: glob_def filter_empty_conv glob_match_iff)

lemma fetch_writes:
  "fetch_stock_data e w s = Inr (Some p, w') \<Longrightarrow> file_path e s \<in> fst ` set (raw_data w')"
  by (auto simp: fetch_stock_data_def dom_update split: response.splits if_splits)

lemma example_fetch:
  "fetch_stock_data (example_env (Some ''demo'') always_answers) fresh ''AAPL''
     = Inr (Some ''AAPL_2024-01-04.json'',
            \<lparr>raw_data = [(''AAPL_2024-01-04.json'', Doc example_payload)], db = None\<rparr>)"
proof -
  let ?e = "example_env (Some ''demo'') always_answers"
  have h: "http_get ?e (params ?e fresh ''AAPL'') = Body example_payload"
    by (simp add: example_env_def always_answers_def)
  have i: "information example_payload = None"
    by (simp add: example_payload_def)
  have v: "model_validate example_payload"
    using example_payload_well_formed by (rule well_formed_validates)
  have p: "file_path ?e ''AAPL'' = ''AAPL_2024-01-04.json''"
    by (simp add: file_path_def example_env_def)
  show ?thesis
    unfolding fetch_saves [OF h i v] p by (simp add: fresh_def)
qed

text \<open>
  C9. The request for a symbol asks for \<open>compact\<close> if the directory has a file
  named by the symbol, an underscore, any text and \<open>.json\<close> (the name of a
  snapshot of that symbol), and for \<open>full\<close> otherwise. The choice is the same in
  every environment: the server and the clock have no part in it. Once a fetch has
  written a snapshot, the next request for the symbol asks for \<open>compact\<close>.
\<close>

theorem output_size_local:
  "req_outputsize (params e w s) =
     (if \<exists>name \<in> fst ` set (raw_data w). \<exists>mid. name = s @ ''_'' @ mid @ ''.json''
      then ''compact'' else ''full'') \<and>
   req_outputsize (params e' w s) = req_outputsize (params e w s) \<and>
   (fetch_stock_data e w s = Inr (Some p, w') \<longrightarrow> req_outputsize (params e w' s) = ''compact'')"
proof (intro conjI impI)
  show "req_outputsize (params e w s) =
     (if \<exists>name \<in> fst ` set (raw_data w). \<exists>mid. name = s @ ''_'' @ mid @ ''.json''
      then ''compact'' else ''full'')"
    unfolding glob_nonempty [symmetric] by (simp add: params_def output_size_def)
  show "req_outputsize (params e' w s) = req_outputsize (params e w s)"
    by (simp add: params_def)
next
  assume "fetch_stock_data e w s = Inr (Some p, w')"
  then have "file_path e s \<in> fst ` set (raw_data w')"
    by (rule fetch_writes)
  then have "\<exists>name \<in> fst ` set (raw_data w'). \<exists>mid. name = s @ ''_'' @ mid @ ''.json''"
    unfolding file_path_def by blast
  then have "glob w' s \<noteq> []"
    by (simp only: glob_nonempty)
  then show "req_outputsize (params e w' s) = ''compact''"
    by (simp add: params_def output_size_def)
qed

theorem output_size_local_witness:
  "fetch_stock_data (example_env (Some ''demo'') always_answers) fresh ''AAPL''
     = Inr (Some ''AAPL_2024-01-04.json'',
            \<lparr>raw_data = [(''AAPL_2024-01-04.json'', Doc example_payload)], db = None\<rparr>) \<and>
   req_outputsize (params (example_env (Some ''demo'') always_answers) fresh ''AAPL'') = ''full'' \<and>
   req_outputsize (params (example_env (Some ''demo'') always_answers)
      \<lparr>raw_data = [(''AAPL_2024-01-04.json'', Doc example_payload)], db = None\<rparr> ''AAPL'')
     = ''compact''"
proof -
  let ?e = "example_env (Some ''demo'') always_answers"
  let ?w' = "\<lparr>raw_data = [(''AAPL_2024-01-04.json'', Doc example_payload)], db = None\<rparr>"
  note inst = output_size_local [of ?e fresh "''AAPL''" ?e "''AAPL_2024-01-04.json''" ?w']
  have "fst ` set (raw_data fresh) = {}"
    by (simp add: fresh_def)
  with inst [THEN conjunct1] have full: "req_outputsize (params ?e fresh ''AAPL'') = ''full''"
    by (simp only: bex_empty if_False)
  from inst [THEN conjunct2, THEN conjunct2] example_fetch
  have "req_outputsize (params ?e ?w' ''AAPL'') = ''compact''"
    by (rule mp)
  with example_fetch full show ?thesis by (intro conjI)
qed

end
